theory Spec2Isabelle
  imports Complex_Main
begin

section \<open>JavaScript values and strings\<close>

text \<open>
  The program is the transaction uploader: the module that exports
  \<^verbatim>\<open>validateAndUploadTransactions\<close>, \<^verbatim>\<open>parseCSV\<close>, \<^verbatim>\<open>uploadToNotion\<close> and
  \<^verbatim>\<open>formatDateToISO\<close> (\<^verbatim>\<open>src/index.js\<close> holds the same three helpers, word for word).

  A JavaScript string is modelled as a HOL \<^typ>\<open>string\<close>: the UTF-8 bytes of the text.
  The values that reach the code are strings, \<^verbatim>\<open>undefined\<close> (a missing option, a
  missing column of a row, a missing property) and \<^verbatim>\<open>null\<close> (what
  \<^verbatim>\<open>formatDateToISO\<close> returns for no date).
\<close>

datatype jsval = Undefined | Null | Str string

text \<open>Truthiness: \<^verbatim>\<open>undefined\<close>, \<^verbatim>\<open>null\<close> and the empty string are falsy.\<close>

fun truthy :: "jsval \<Rightarrow> bool" where
  "truthy Undefined = False"
| "truthy Null = False"
| "truthy (Str s) = (s \<noteq> [])"

text \<open>\<^verbatim>\<open>a || b\<close>: the left operand when it is truthy, the right one otherwise.\<close>

definition js_or :: "jsval \<Rightarrow> jsval \<Rightarrow> jsval" where
  "js_or a b = (if truthy a then a else b)"

text \<open>\<^verbatim>\<open>${v}\<close> in a template literal: the string conversion of the value.\<close>

fun toStr :: "jsval \<Rightarrow> string" where
  "toStr Undefined = ''undefined''"
| "toStr Null = ''null''"
| "toStr (Str s) = s"

text \<open>
  \<^verbatim>\<open>String.prototype.toLowerCase\<close> on the ASCII range: the letters A to Z move to
  a to z, every other byte stays. (Outside ASCII the JavaScript mapping never produces one of
  the letters of the three bank prefixes, so the prefix tests below see the same result.)
\<close>

definition toLowerChar :: "char \<Rightarrow> char" where
  "toLowerChar c =
     (let n = (of_char c :: nat) in if 65 \<le> n \<and> n \<le> 90 then char_of (n + 32) else c)"

definition toLowerCase :: "string \<Rightarrow> string" where
  "toLowerCase s = map toLowerChar s"

text \<open>\<^verbatim>\<open>s.startsWith(p)\<close>: the first \<^verbatim>\<open>p.length\<close> units of \<^verbatim>\<open>s\<close> are \<^verbatim>\<open>p\<close>.\<close>

definition startsWith :: "string \<Rightarrow> string \<Rightarrow> bool" where
  "startsWith s p = (take (length p) s = p)"

text \<open>\<^verbatim>\<open>xs.join(', ')\<close>.\<close>

fun join_comma :: "string list \<Rightarrow> string" where
  "join_comma [] = []"
| "join_comma [x] = x"
| "join_comma (x # y # ys) = x @ '', '' @ join_comma (y # ys)"

section \<open>Constants\<close>

definition ALLOWED_PAYMENT_METHODS :: "string list" where
  "ALLOWED_PAYMENT_METHODS =
     [''Amex Platinum'', ''Apple Card'', ''Chase Freedom'', ''Chase Sapphire'', ''Chase Southwest'']"

definition ALLOWED_USERS :: "string list" where
  "ALLOWED_USERS = [''Alli'', ''Justin'']"

datatype BankId = chase | amex | apple

text \<open>
  One entry of \<^verbatim>\<open>BANK_MAPPINGS\<close>: the CSV column that holds each canonical field
  (\<^verbatim>\<open>transactionDate\<close>, \<^verbatim>\<open>description\<close>, \<^verbatim>\<open>amount\<close>; the suffix keeps the names
  apart from the fields of a transaction).
\<close>

record FieldMapping =
  transactionDate_column :: string
  description_column :: string
  amount_column :: string

fun BANK_MAPPINGS :: "BankId \<Rightarrow> FieldMapping" where
  "BANK_MAPPINGS chase =
     \<lparr>transactionDate_column = ''Transaction Date'', description_column = ''Description'',
      amount_column = ''Amount''\<rparr>"
| "BANK_MAPPINGS amex =
     \<lparr>transactionDate_column = ''Date'', description_column = ''Description'', amount_column = ''Amount''\<rparr>"
| "BANK_MAPPINGS apple =
     \<lparr>transactionDate_column = ''Transaction Date'', description_column = ''Merchant'',
      amount_column = ''Amount (USD)''\<rparr>"

datatype error = Error string

section \<open>Bank resolution\<close>

text \<open>
  The first statement of \<^verbatim>\<open>parseCSV\<close>: the chain of three prefix tests on the
  lower-cased label, and the rejection when none applies.
\<close>

definition resolveBank :: "string \<Rightarrow> error + BankId" where
  "resolveBank paymentMethod =
     (if startsWith (toLowerCase paymentMethod) ''chase'' then Inr chase
      else if startsWith (toLowerCase paymentMethod) ''amex'' then Inr amex
      else if startsWith (toLowerCase paymentMethod) ''apple'' then Inr apple
      else Inl (Error (''Unsupported payment method: '' @ paymentMethod @
                       ''. Cannot determine bank type.'')))"

text \<open>
  What the specification calls "case-insensitively starts with": the label is at least as
  long as the prefix and agrees with it, unit by unit, up to the case of ASCII letters.
\<close>

fun ci_starts :: "string \<Rightarrow> string \<Rightarrow> bool" where
  "ci_starts [] s = True"
| "ci_starts (p # ps) [] = False"
| "ci_starts (p # ps) (c # cs) = (toLowerChar c = toLowerChar p \<and> ci_starts ps cs)"

section \<open>Rows and canonical transactions\<close>

text \<open>
  A row delivered by the CSV parser: column name to cell text. \<^verbatim>\<open>data[k]\<close> is the cell,
  or \<^verbatim>\<open>undefined\<close> when the row has no column \<^verbatim>\<open>k\<close>. (The properties that a
  JavaScript object inherits are not columns; none of the column names of
  \<^verbatim>\<open>BANK_MAPPINGS\<close> is the name of one.)
\<close>

type_synonym RawRow = "string \<rightharpoonup> string"

definition row_get :: "RawRow \<Rightarrow> string \<Rightarrow> jsval" where
  "row_get data k = (case data k of None \<Rightarrow> Undefined | Some v \<Rightarrow> Str v)"

record transaction =
  description :: jsval
  amount :: jsval
  date :: jsval
  originalData :: RawRow
  paymentMethod :: jsval

text \<open>
  \<^verbatim>\<open>x.split('T')[0]\<close>: the text before the first \<^verbatim>\<open>T\<close> (all of it when there is none).
\<close>

definition split_T_0 :: "string \<Rightarrow> string" where
  "split_T_0 s = takeWhile (\<lambda>c. c \<noteq> CHR ''T'') s"

text \<open>
  The body of the \<^verbatim>\<open>'data'\<close> handler of \<^verbatim>\<open>parseCSV\<close>. \<^verbatim>\<open>nowISO\<close> is what
  \<^verbatim>\<open>new Date().toISOString()\<close> returns at the moment the row is handled.
\<close>

definition normalizeRow :: "FieldMapping \<Rightarrow> string \<Rightarrow> string \<Rightarrow> RawRow \<Rightarrow> transaction" where
  "normalizeRow fieldMappings pm nowISO data =
     \<lparr>description = js_or (row_get data (description_column fieldMappings)) (Str ''Unknown''),
      amount = js_or (row_get data (amount_column fieldMappings)) (Str ''0''),
      date = js_or (row_get data (transactionDate_column fieldMappings)) (Str (split_T_0 nowISO)),
      originalData = data,
      paymentMethod = Str pm\<rparr>"

text \<open>
  The shape of a text against a pattern in which \<^verbatim>\<open>d\<close> stands for one decimal digit and
  every other character for itself: \<^verbatim>\<open>dddd-dd-dd\<close> is the strict \<^verbatim>\<open>YYYY-MM-DD\<close> form
  and \<^verbatim>\<open>dddd-dd-ddTdd:dd:dd.dddZ\<close> what \<^verbatim>\<open>Date.prototype.toISOString\<close> returns for
  the years 0 to 9999.
\<close>

definition isDigit :: "char \<Rightarrow> bool" where
  "isDigit c = (let n = (of_char c :: nat) in 48 \<le> n \<and> n \<le> 57)"

fun has_shape :: "string \<Rightarrow> string \<Rightarrow> bool" where
  "has_shape [] s = (s = [])"
| "has_shape (p # ps) [] = False"
| "has_shape (p # ps) (c # cs) =
     ((if p = CHR ''d'' then isDigit c else c = p) \<and> has_shape ps cs)"

definition is_YYYY_MM_DD :: "string \<Rightarrow> bool" where
  "is_YYYY_MM_DD s = has_shape ''dddd-dd-dd'' s"

definition is_iso_timestamp :: "string \<Rightarrow> bool" where
  "is_iso_timestamp s = has_shape ''dddd-dd-ddTdd:dd:dd.dddZ'' s"

section \<open>Numbers\<close>

text \<open>
  A JavaScript number as far as the amount needs it: not-a-number, the two infinities, or a
  finite value. The finite value is kept exact: the rounding to a double (which is symmetric
  about zero, so it commutes with the absolute value), the overflow of a huge literal to
  infinity and negative zero are not modelled.
\<close>

datatype jsnum = NaN | PosInfinity | NegInfinity | Finite rat

fun Math_abs :: "jsnum \<Rightarrow> jsnum" where
  "Math_abs NaN = NaN"
| "Math_abs PosInfinity = PosInfinity"
| "Math_abs NegInfinity = PosInfinity"
| "Math_abs (Finite r) = Finite \<bar>r\<bar>"

fun negate :: "jsnum \<Rightarrow> jsnum" where
  "negate NaN = NaN"
| "negate PosInfinity = NegInfinity"
| "negate NegInfinity = PosInfinity"
| "negate (Finite r) = Finite (- r)"

definition isWhiteSpace :: "char \<Rightarrow> bool" where
  "isWhiteSpace c = ((of_char c :: nat) \<in> {9, 10, 11, 12, 13, 32})"

definition digitsVal :: "string \<Rightarrow> nat" where
  "digitsVal ds = foldl (\<lambda>acc c. 10 * acc + ((of_char c :: nat) - 48)) 0 ds"

definition scale10 :: "rat \<Rightarrow> int \<Rightarrow> rat" where
  "scale10 m e = (if 0 \<le> e then m * 10 ^ nat e else m / 10 ^ nat (- e))"

text \<open>The optional exponent part at the head of the rest of the literal.\<close>

definition exponentPart :: "string \<Rightarrow> int" where
  "exponentPart r =
     (case r of
        [] \<Rightarrow> 0
      | e # r1 \<Rightarrow>
          if e = CHR ''e'' \<or> e = CHR ''E'' then
            (case r1 of
               [] \<Rightarrow> 0
             | sg # r2 \<Rightarrow>
                 if sg = CHR ''+'' then int (digitsVal (takeWhile isDigit r2))
                 else if sg = CHR ''-'' then - int (digitsVal (takeWhile isDigit r2))
                 else int (digitsVal (takeWhile isDigit r1)))
          else 0)"

text \<open>
  The longest prefix that is an unsigned decimal literal of the language (\<^verbatim>\<open>Infinity\<close>,
  digits with an optional fraction and exponent, or a fraction alone), and its value;
  \<^const>\<open>NaN\<close> when no prefix is one.
\<close>

definition parseUnsigned :: "string \<Rightarrow> jsnum" where
  "parseUnsigned s =
     (if startsWith s ''Infinity'' then PosInfinity
      else
        (let ip = takeWhile isDigit s; r1 = dropWhile isDigit s in
         case r1 of
           [] \<Rightarrow> if ip = [] then NaN else Finite (of_nat (digitsVal ip))
         | d # r2 \<Rightarrow>
             if d = CHR ''.'' then
               (let fp = takeWhile isDigit r2; r3 = dropWhile isDigit r2 in
                if ip = [] \<and> fp = [] then NaN
                else Finite (scale10 (of_nat (digitsVal (ip @ fp)))
                               (exponentPart r3 - int (length fp))))
             else if ip = [] then NaN
             else Finite (scale10 (of_nat (digitsVal ip)) (exponentPart r1))))"

text \<open>
  \<^verbatim>\<open>parseFloat\<close> of a string: leading white space (of the ASCII range) is skipped, then an
  optional sign is read.
\<close>

definition parseFloat :: "string \<Rightarrow> jsnum" where
  "parseFloat s =
     (case dropWhile isWhiteSpace s of
        [] \<Rightarrow> NaN
      | c # r \<Rightarrow>
          if c = CHR ''+'' then parseUnsigned r
          else if c = CHR ''-'' then negate (parseUnsigned r)
          else parseUnsigned (c # r))"

section \<open>The outside world\<close>

text \<open>
  The record sent to the remote database by \<^verbatim>\<open>notionClient.pages.create\<close>: the parent
  database and the five properties.
\<close>

record notion_page =
  database_id :: jsval
  Date_start :: jsval
  Expense_content :: jsval
  Total_Amount :: jsnum
  Status_name :: string
  Payment_Method_name :: string

text \<open>
  What the CSV stream emits: a row, the end of the input, or an error. A promise is pending
  until it is settled, and it is settled once.
\<close>

datatype csv_event = Data RawRow | End | StreamError error

datatype 'a promise = Pending | Fulfilled 'a | Rejected error

text \<open>
  The moments at which the clock is read: while the \<open>k\<close>-th row of the stream is handled,
  and while the \<open>k\<close>-th transaction of the upload is handled (each reads it at most once).
\<close>

datatype moment = Row nat | Item nat

text \<open>
  Everything the code reads from outside, as parameters:
  whether \<^verbatim>\<open>fs.access\<close> succeeds on a path; the events that
  \<^verbatim>\<open>createReadStream(path).pipe(csv())\<close> emits, in order; what the \<open>k\<close>-th call of
  \<^verbatim>\<open>pages.create\<close> answers (\<^const>\<open>None\<close> for success, the error it raises otherwise);
  the clock read by \<^verbatim>\<open>new Date()\<close> at each moment; and the two library
  functions on dates, \<^verbatim>\<open>new Date(text)\<close> (\<^const>\<open>None\<close> for an invalid date) and
  \<^verbatim>\<open>toISOString\<close>, whose parsing of free text is left to the JavaScript engine.
\<close>

record world =
  fs_access :: "string \<Rightarrow> bool"
  csv_events :: "string \<Rightarrow> csv_event list"
  pages_create :: "nat \<Rightarrow> notion_page \<Rightarrow> error option"
  Date_now :: "moment \<Rightarrow> int"
  Date_parse :: "string \<Rightarrow> int option"
  toISOString :: "int \<Rightarrow> string"

text \<open>
  The effects that the claims speak of, in the order the code performs them: the probe of the
  file, the opening of the file, a warning, a report on the error console, a call of the
  remote create-record capability. The informational \<^verbatim>\<open>console.log\<close> lines are left out.
\<close>

datatype effect =
    Access string
  | Open string
  | Warn string
  | ConsoleError string
  | Create notion_page

text \<open>\<^verbatim>\<open>new Date().toISOString()\<close> at a moment.\<close>

definition nowISO :: "world \<Rightarrow> moment \<Rightarrow> string" where
  "nowISO w m = toISOString w (Date_now w m)"

section \<open>parseCSV\<close>

record parse_state =
  results :: "transaction list"
  settled :: "transaction list promise"

text \<open>
  The three handlers. \<^verbatim>\<open>resolve\<close> and \<^verbatim>\<open>reject\<close> have no effect on a promise that is
  already settled.
\<close>

fun on_event :: "world \<Rightarrow> FieldMapping \<Rightarrow> string \<Rightarrow> parse_state \<Rightarrow> csv_event \<Rightarrow> parse_state" where
  "on_event w fm pm st (Data data) =
     st\<lparr>results := results st @ [normalizeRow fm pm (nowISO w (Row (length (results st)))) data]\<rparr>"
| "on_event w fm pm st End =
     (case settled st of Pending \<Rightarrow> st\<lparr>settled := Fulfilled (results st)\<rparr> | _ \<Rightarrow> st)"
| "on_event w fm pm st (StreamError e) =
     (case settled st of Pending \<Rightarrow> st\<lparr>settled := Rejected e\<rparr> | _ \<Rightarrow> st)"

definition parseCSV :: "world \<Rightarrow> string \<Rightarrow> string \<Rightarrow> transaction list promise \<times> effect list" where
  "parseCSV w filePath pm =
     (case resolveBank pm of
        Inl e \<Rightarrow> (Rejected e, [])
      | Inr bank \<Rightarrow>
          (settled (foldl (on_event w (BANK_MAPPINGS bank) pm)
                      \<lparr>results = [], settled = Pending\<rparr> (csv_events w filePath)),
           [Open filePath]))"

section \<open>uploadToNotion\<close>

text \<open>
  \<^verbatim>\<open>formatDateToISO\<close>: \<^verbatim>\<open>null\<close> for a falsy argument; for an invalid date the
  exception is caught, a warning printed and \<^verbatim>\<open>null\<close> returned; otherwise the date part of
  the ISO text.
\<close>

definition formatDateToISO :: "world \<Rightarrow> jsval \<Rightarrow> jsval \<times> effect list" where
  "formatDateToISO w dateString =
     (if \<not> truthy dateString then (Null, [])
      else
        (case Date_parse w (toStr dateString) of
           None \<Rightarrow>
             (Null, [Warn (''Date parsing error for '' @ [CHR 0x22] @ toStr dateString @
                           [CHR 0x22] @ '': Invalid date: '' @ toStr dateString)])
         | Some t \<Rightarrow> (Str (split_T_0 (toISOString w t)), [])))"

text \<open>
  \<^verbatim>\<open>Math.abs(parseFloat(transaction.amount || 0))\<close>; \<^verbatim>\<open>parseFloat\<close> converts its
  argument to a string first, and the number \<^verbatim>\<open>0\<close> converts to \<^verbatim>\<open>"0"\<close>.
\<close>

definition amountNumber :: "jsval \<Rightarrow> jsnum" where
  "amountNumber a = Math_abs (parseFloat (if truthy a then toStr a else ''0''))"

text \<open>The argument of \<^verbatim>\<open>pages.create\<close> for one transaction, handled as item \<open>k\<close>.\<close>

definition buildPage :: "world \<Rightarrow> jsval \<Rightarrow> jsval \<Rightarrow> nat \<Rightarrow> transaction \<Rightarrow> notion_page" where
  "buildPage w databaseId whoAmI k t =
     \<lparr>database_id = databaseId,
      Date_start = js_or (fst (formatDateToISO w (date t))) (Str (split_T_0 (nowISO w (Item k)))),
      Expense_content = js_or (description t) (Str ''Unknown Transaction''),
      Total_Amount = amountNumber (amount t),
      Status_name = ''Requires Audit'',
      Payment_Method_name =
        (toStr whoAmI @ [CHR 0x27] @ ''s '') @ toStr (js_or (paymentMethod t) (Str ''Unknown Card''))\<rparr>"

text \<open>
  One iteration of the loop, for item \<open>k\<close>: the page is built (which may print the date
  warning), the create call is made, and when it raises the \<^verbatim>\<open>catch\<close> reports the
  message.
\<close>

definition upload_item :: "world \<Rightarrow> jsval \<Rightarrow> jsval \<Rightarrow> nat \<Rightarrow> transaction \<Rightarrow> effect list" where
  "upload_item w databaseId whoAmI k t =
     snd (formatDateToISO w (date t)) @
     [Create (buildPage w databaseId whoAmI k t)] @
     (case pages_create w k (buildPage w databaseId whoAmI k t) of
        Some (Error m) \<Rightarrow> [ConsoleError (''Failed to upload transaction: '' @ m)]
      | None \<Rightarrow> [])"

text \<open>The loop from item \<open>k\<close> on: after the \<^verbatim>\<open>catch\<close> it goes on with the next item.\<close>

fun upload_from :: "world \<Rightarrow> jsval \<Rightarrow> jsval \<Rightarrow> nat \<Rightarrow> transaction list \<Rightarrow> effect list" where
  "upload_from w databaseId whoAmI k [] = []"
| "upload_from w databaseId whoAmI k (t # ts) =
     upload_item w databaseId whoAmI k t @ upload_from w databaseId whoAmI (Suc k) ts"

definition uploadToNotion :: "world \<Rightarrow> jsval \<Rightarrow> transaction list \<Rightarrow> jsval \<Rightarrow> effect list" where
  "uploadToNotion w databaseId transactions whoAmI = upload_from w databaseId whoAmI 0 transactions"

section \<open>validateAndUploadTransactions\<close>

record options =
  csvFilePath :: string
  opt_paymentMethod :: string
  notionDatabaseId :: jsval
  notionApiKey :: jsval
  whoAmI :: jsval
  dryRun :: bool

record env =
  NOTION_API_KEY :: jsval
  NOTION_DATABASE_ID :: jsval
  WHO_AM_I :: jsval

text \<open>
  The checks of \<^verbatim>\<open>validateAndUploadTransactions\<close>, up to the creation of the client.
  On success the options are returned with the three merged values filled in.
\<close>

definition validate :: "world \<Rightarrow> env \<Rightarrow> options \<Rightarrow> error + options" where
  "validate w ev opts =
     (if \<not> fs_access w (csvFilePath opts)
      then Inl (Error (''CSV file not found at path: '' @ csvFilePath opts))
      else
        (let key = js_or (notionApiKey opts) (NOTION_API_KEY ev);
             db = js_or (notionDatabaseId opts) (NOTION_DATABASE_ID ev);
             who = js_or (whoAmI opts) (WHO_AM_I ev)
         in
           if \<not> truthy key then
             Inl (Error ''Notion API key is required. Provide it via --notion-api-key option or NOTION_API_KEY env var.'')
           else if \<not> truthy db then
             Inl (Error ''Notion database ID is required. Provide it via --notion-database-id option or NOTION_DATABASE_ID env var.'')
           else if \<not> truthy who then
             Inl (Error ''WHO_AM_I is required. Provide it via --who-am-i option or WHO_AM_I env var.'')
           else if who \<notin> set (map Str ALLOWED_USERS) then
             Inl (Error (''--who-am-i must be one of: '' @ join_comma ALLOWED_USERS))
           else if opt_paymentMethod opts \<notin> set ALLOWED_PAYMENT_METHODS then
             Inl (Error (''--payment-method must be one of: '' @ join_comma ALLOWED_PAYMENT_METHODS))
           else Inr (opts\<lparr>notionApiKey := key, notionDatabaseId := db, whoAmI := who\<rparr>)))"

text \<open>
  How a run ends: the function returns, it throws, the process exits with a status, or the
  promise of \<^verbatim>\<open>parseCSV\<close> is never settled and the \<^verbatim>\<open>await\<close> never continues.
  The creation of the client and the printing of a dry run have none of the effects above.
\<close>

datatype outcome = Returned | Thrown error | Exited nat | NeverSettles

definition validateAndUploadTransactions :: "world \<Rightarrow> env \<Rightarrow> options \<Rightarrow> outcome \<times> effect list" where
  "validateAndUploadTransactions w ev opts =
     (case validate w ev opts of
        Inl e \<Rightarrow> (Thrown e, [Access (csvFilePath opts)])
      | Inr v \<Rightarrow>
          (case parseCSV w (csvFilePath v) (opt_paymentMethod v) of
             (Rejected e, effs) \<Rightarrow> (Thrown e, Access (csvFilePath opts) # effs)
           | (Pending, effs) \<Rightarrow> (NeverSettles, Access (csvFilePath opts) # effs)
           | (Fulfilled transactions, effs) \<Rightarrow>
               if length transactions = 0 then (Exited 0, Access (csvFilePath opts) # effs)
               else if dryRun v then (Returned, Access (csvFilePath opts) # effs)
               else (Returned,
                     Access (csvFilePath opts) # effs @
                     uploadToNotion w (notionDatabaseId v) transactions (whoAmI v))))"

section \<open>Observations and a concrete world\<close>

text \<open>The pages handed to the create call, in the order of the calls.\<close>

fun created_pages :: "effect list \<Rightarrow> notion_page list" where
  "created_pages [] = []"
| "created_pages (Create p # es) = p # created_pages es"
| "created_pages (e # es) = created_pages es"

text \<open>
  A concrete world for the examples: one readable file of three rows, a remote database
  that refuses the second record, a clock that stands at 2024-02-03T10:20:30.123Z, and a
  date library that parses the two date texts \<^verbatim>\<open>2023-01-15\<close> and \<^verbatim>\<open>2024-02-03\<close>.
\<close>

definition example_world :: world where
  "example_world =
     \<lparr>fs_access = (\<lambda>p. p = ''transactions.csv''),
      csv_events = (\<lambda>p.
        [Data (map_of [(''Transaction Date'', ''2023-01-15''), (''Description'', ''AMAZON.COM''),
                       (''Amount'', ''-50.99'')]),
         Data (map_of [(''Transaction Date'', ''soon''), (''Description'', ''STARBUCKS''),
                       (''Amount'', ''4.95'')]),
         Data (map_of [(''Description'', ''''), (''Memo'', ''gift'')]),
         End]),
      pages_create = (\<lambda>k page. if k = 1 then Some (Error ''validation_error'') else None),
      Date_now = (\<lambda>m. 1706955630123),
      Date_parse = (\<lambda>s. if s = ''2023-01-15'' then Some 1673740800000
                         else if s = ''2024-02-03'' then Some 1706918400000 else None),
      toISOString = (\<lambda>t. if t = 1673740800000 then ''2023-01-15T00:00:00.000Z''
                          else if t = 1706918400000 then ''2024-02-03T00:00:00.000Z''
                          else ''2024-02-03T10:20:30.123Z'')\<rparr>"

definition example_env :: env where
  "example_env = \<lparr>NOTION_API_KEY = Str ''secret'', NOTION_DATABASE_ID = Str ''db1'', WHO_AM_I = Undefined\<rparr>"

definition example_options :: options where
  "example_options =
     \<lparr>csvFilePath = ''transactions.csv'', opt_paymentMethod = ''Chase Freedom'',
      notionDatabaseId = Undefined, notionApiKey = Undefined, whoAmI = Str ''Alli'',
      dryRun = False\<rparr>"

text \<open>Options and an environment in which every check fails at once.\<close>

definition empty_env :: env where
  "empty_env = \<lparr>NOTION_API_KEY = Undefined, NOTION_DATABASE_ID = Undefined, WHO_AM_I = Undefined\<rparr>"

definition bad_options :: options where
  "bad_options =
     \<lparr>csvFilePath = ''missing.csv'', opt_paymentMethod = ''Cash'',
      notionDatabaseId = Undefined, notionApiKey = Undefined, whoAmI = Undefined,
      dryRun = False\<rparr>"

text \<open>Three transactions: a full one, one whose date and amount do not parse, one with nothing.\<close>

definition amazon_tx :: transaction where
  "amazon_tx =
     \<lparr>description = Str ''AMAZON.COM'', amount = Str ''-50.99'', date = Str ''2023-01-15'',
      originalData = map_of [], paymentMethod = Str ''Chase Freedom''\<rparr>"

definition starbucks_tx :: transaction where
  "starbucks_tx =
     \<lparr>description = Str ''STARBUCKS'', amount = Str ''abc'', date = Str ''soon'',
      originalData = map_of [], paymentMethod = Str ''Chase Freedom''\<rparr>"

definition blank_tx :: transaction where
  "blank_tx =
     \<lparr>description = Undefined, amount = Undefined, date = Undefined,
      originalData = map_of [], paymentMethod = Undefined\<rparr>"

section \<open>Bank resolution and row normalisation\<close>

lemma prefixes_lower:
  "\<forall>c\<in>set ''chase''. toLowerChar c = c"
  "\<forall>c\<in>set ''amex''. toLowerChar c = c"
  "\<forall>c\<in>set ''apple''. toLowerChar c = c"
  by (simp_all add: toLowerChar_def)

lemma ci_starts_startsWith:
  "\<forall>c\<in>set p. toLowerChar c = c \<Longrightarrow> ci_starts p s = startsWith (toLowerCase s) p"
  by (induction p s rule: ci_starts.induct) (auto simp: startsWith_def toLowerCase_def)

lemma startsWith_Cons2: "startsWith s (a # b # p) \<Longrightarrow> \<exists>t. s = a # b # t"
  by (cases s; cases "tl s") (auto simp: startsWith_def)

lemma prefixes_exclusive:
  "\<not> (startsWith s ''chase'' \<and> startsWith s ''amex'')"
  "\<not> (startsWith s ''chase'' \<and> startsWith s ''apple'')"
  "\<not> (startsWith s ''amex'' \<and> startsWith s ''apple'')"
  by (auto dest!: startsWith_Cons2)

lemma resolveBank_cases:
  "(ci_starts ''chase'' pm \<longrightarrow> resolveBank pm = Inr chase) \<and>
   (ci_starts ''amex'' pm \<longrightarrow> resolveBank pm = Inr amex) \<and>
   (ci_starts ''apple'' pm \<longrightarrow> resolveBank pm = Inr apple) \<and>
   (\<not> ci_starts ''chase'' pm \<and> \<not> ci_starts ''amex'' pm \<and> \<not> ci_starts ''apple'' pm \<longrightarrow>
      resolveBank pm =
        Inl (Error (''Unsupported payment method: '' @ pm @ ''. Cannot determine bank type.'')))"
proof -
  have c: "ci_starts ''chase'' pm = startsWith (toLowerCase pm) ''chase''"
    by (rule ci_starts_startsWith [OF prefixes_lower(1)])
  have a: "ci_starts ''amex'' pm = startsWith (toLowerCase pm) ''amex''"
    by (rule ci_starts_startsWith [OF prefixes_lower(2)])
  have p: "ci_starts ''apple'' pm = startsWith (toLowerCase pm) ''apple''"
    by (rule ci_starts_startsWith [OF prefixes_lower(3)])
  show ?thesis
    unfolding c a p resolveBank_def
    using prefixes_exclusive [of "toLowerCase pm"] by auto
qed

text \<open>
  C1. A label that starts, up to case, with \<^verbatim>\<open>chase\<close>, \<^verbatim>\<open>amex\<close> or \<^verbatim>\<open>apple\<close> is
  resolved to that bank (the three prefixes exclude one another, so the order of the tests
  decides nothing); a label that starts with none of them makes \<^verbatim>\<open>parseCSV\<close> reject
  with a message that holds the label as it was given.
\<close>

theorem resolveBank_by_prefix:
  "(ci_starts ''chase'' pm \<longrightarrow> resolveBank pm = Inr chase) \<and>
   (ci_starts ''amex'' pm \<longrightarrow> resolveBank pm = Inr amex) \<and>
   (ci_starts ''apple'' pm \<longrightarrow> resolveBank pm = Inr apple) \<and>
   (\<not> ci_starts ''chase'' pm \<and> \<not> ci_starts ''amex'' pm \<and> \<not> ci_starts ''apple'' pm \<longrightarrow>
      resolveBank pm =
        Inl (Error (''Unsupported payment method: '' @ pm @ ''. Cannot determine bank type.'')) \<and>
      fst (parseCSV w filePath pm) =
        Rejected (Error (''Unsupported payment method: '' @ pm @ ''. Cannot determine bank type.'')))"
  using resolveBank_cases [of pm] by (auto simp: parseCSV_def)

theorem resolveBank_by_prefix_witness:
  "ci_starts ''chase'' ''CHASE Sapphire'' \<and> resolveBank ''CHASE Sapphire'' = Inr chase \<and>
   ci_starts ''amex'' ''aMeX Platinum'' \<and> resolveBank ''aMeX Platinum'' = Inr amex \<and>
   ci_starts ''apple'' ''Apple Card'' \<and> resolveBank ''Apple Card'' = Inr apple \<and>
   \<not> ci_starts ''chase'' ''Unsupported Card'' \<and> \<not> ci_starts ''amex'' ''Unsupported Card'' \<and>
   \<not> ci_starts ''apple'' ''Unsupported Card'' \<and>
   resolveBank ''Unsupported Card'' =
     Inl (Error ''Unsupported payment method: Unsupported Card. Cannot determine bank type.'')"
proof -
  have h1: "ci_starts ''chase'' ''CHASE Sapphire''" by code_simp
  have h2: "ci_starts ''amex'' ''aMeX Platinum''" by code_simp
  have h3: "ci_starts ''apple'' ''Apple Card''" by code_simp
  have h4: "\<not> ci_starts ''chase'' ''Unsupported Card'' \<and> \<not> ci_starts ''amex'' ''Unsupported Card'' \<and>
    \<not> ci_starts ''apple'' ''Unsupported Card''" by code_simp
  show ?thesis
    using h1 h2 h3 h4 resolveBank_by_prefix [of "''CHASE Sapphire''"]
      resolveBank_by_prefix [of "''aMeX Platinum''"] resolveBank_by_prefix [of "''Apple Card''"]
      resolveBank_by_prefix [of "''Unsupported Card''"]
    by simp
qed

lemma isDigit_not_T: "isDigit c \<Longrightarrow> c \<noteq> CHR ''T''"
  by (auto simp: isDigit_def)

lemma has_shape_split:
  "has_shape (p1 @ CHR ''T'' # p2) s \<Longrightarrow> CHR ''T'' \<notin> set p1 \<Longrightarrow>
   split_T_0 s = take (length p1) s \<and> has_shape p1 (take (length p1) s)"
proof (induction p1 arbitrary: s)
  case Nil
  then show ?case by (cases s) (auto simp: split_T_0_def)
next
  case (Cons p ps)
  then show ?case
    by (cases s) (auto simp: split_T_0_def dest: isDigit_not_T split: if_splits)
qed

lemma iso_date_part:
  assumes "is_iso_timestamp s"
  shows "is_YYYY_MM_DD (split_T_0 s) \<and> split_T_0 s = take 10 s \<and> split_T_0 s \<noteq> []"
proof -
  have l: "length ''dddd-dd-dd'' = 10" by simp
  have "has_shape (''dddd-dd-dd'' @ CHR ''T'' # ''dd:dd:dd.dddZ'') s"
    using assms by (simp add: is_iso_timestamp_def)
  then have "split_T_0 s = take (length ''dddd-dd-dd'') s \<and>
      has_shape ''dddd-dd-dd'' (take (length ''dddd-dd-dd'') s)"
    by (rule has_shape_split) simp
  then have *: "split_T_0 s = take 10 s" and **: "has_shape ''dddd-dd-dd'' (split_T_0 s)"
    unfolding l by simp_all
  from ** have "split_T_0 s \<noteq> []" by auto
  with * ** show ?thesis by (simp add: is_YYYY_MM_DD_def)
qed

text \<open>
  C2. Whatever the row and the field mapping: when the mapped description cell is missing or
  empty the description is \<^verbatim>\<open>Unknown\<close>; when the mapped amount cell is missing or empty
  the amount is \<^verbatim>\<open>0\<close>; when the mapped date cell is missing or empty the date is the date
  part of the clock's ISO text, which has the form \<^verbatim>\<open>YYYY-MM-DD\<close> whenever the ISO text
  has its standard form.
\<close>

theorem normalizeRow_defaults:
  "(data (description_column fm) = None \<or> data (description_column fm) = Some '''' \<longrightarrow>
      description (normalizeRow fm pm now data) = Str ''Unknown'') \<and>
   (data (amount_column fm) = None \<or> data (amount_column fm) = Some '''' \<longrightarrow>
      amount (normalizeRow fm pm now data) = Str ''0'') \<and>
   (data (transactionDate_column fm) = None \<or> data (transactionDate_column fm) = Some '''' \<longrightarrow>
      date (normalizeRow fm pm now data) = Str (split_T_0 now) \<and>
      (is_iso_timestamp now \<longrightarrow> is_YYYY_MM_DD (split_T_0 now) \<and> split_T_0 now = take 10 now))"
  using iso_date_part [of now] by (auto simp: normalizeRow_def row_get_def js_or_def)

theorem normalizeRow_defaults_witness:
  "map_of [(''Description'', ''''), (''Memo'', ''x'')] (description_column (BANK_MAPPINGS chase)) = Some '''' \<and>
   map_of [(''Description'', ''''), (''Memo'', ''x'')] (amount_column (BANK_MAPPINGS chase)) = None \<and>
   map_of [(''Description'', ''''), (''Memo'', ''x'')] (transactionDate_column (BANK_MAPPINGS chase)) = None \<and>
   is_iso_timestamp ''2023-01-15T10:20:30.123Z'' \<and>
   description (normalizeRow (BANK_MAPPINGS chase) ''Chase Freedom'' ''2023-01-15T10:20:30.123Z''
      (map_of [(''Description'', ''''), (''Memo'', ''x'')])) = Str ''Unknown'' \<and>
   amount (normalizeRow (BANK_MAPPINGS chase) ''Chase Freedom'' ''2023-01-15T10:20:30.123Z''
      (map_of [(''Description'', ''''), (''Memo'', ''x'')])) = Str ''0'' \<and>
   date (normalizeRow (BANK_MAPPINGS chase) ''Chase Freedom'' ''2023-01-15T10:20:30.123Z''
      (map_of [(''Description'', ''''), (''Memo'', ''x'')])) = Str ''2023-01-15''"
proof -
  have ts: "is_iso_timestamp ''2023-01-15T10:20:30.123Z''" by code_simp
  show ?thesis
    using ts normalizeRow_defaults [of "map_of [(''Description'', ''''), (''Memo'', ''x'')]"
        "BANK_MAPPINGS chase" "''Chase Freedom''" "''2023-01-15T10:20:30.123Z''"]
    by simp
qed

text \<open>
  C3, as claimed, fails: a row may hold all three mapped columns and still get a default,
  because an empty cell is falsy. Here the description column is present and empty, and the
  description becomes \<^verbatim>\<open>Unknown\<close>.
\<close>

theorem normalizeRow_present_empty_counterexample:
  "map_of [(''Transaction Date'', ''2023-01-15''), (''Description'', ''''), (''Amount'', ''-50.99'')]
     (description_column (BANK_MAPPINGS chase)) = Some '''' \<and>
   map_of [(''Transaction Date'', ''2023-01-15''), (''Description'', ''''), (''Amount'', ''-50.99'')]
     (amount_column (BANK_MAPPINGS chase)) = Some ''-50.99'' \<and>
   map_of [(''Transaction Date'', ''2023-01-15''), (''Description'', ''''), (''Amount'', ''-50.99'')]
     (transactionDate_column (BANK_MAPPINGS chase)) = Some ''2023-01-15'' \<and>
   description (normalizeRow (BANK_MAPPINGS chase) ''Chase Freedom'' ''2024-02-03T10:20:30.123Z''
     (map_of [(''Transaction Date'', ''2023-01-15''), (''Description'', ''''), (''Amount'', ''-50.99'')]))
     = Str ''Unknown'' \<and>
   Str ''Unknown'' \<noteq> Str ''''"
  by (simp add: normalizeRow_def row_get_def js_or_def)

text \<open>
  C3, amended. The row is kept unchanged as \<^verbatim>\<open>originalData\<close> and the label is echoed as
  \<^verbatim>\<open>paymentMethod\<close>, always; and when the three mapped cells are present and not empty
  they are copied verbatim, with no default.
\<close>

theorem normalizeRow_verbatim:
  "originalData (normalizeRow fm pm now data) = data \<and>
   paymentMethod (normalizeRow fm pm now data) = Str pm \<and>
   (data (description_column fm) = Some d \<and> d \<noteq> [] \<and>
    data (amount_column fm) = Some a \<and> a \<noteq> [] \<and>
    data (transactionDate_column fm) = Some t \<and> t \<noteq> [] \<longrightarrow>
      description (normalizeRow fm pm now data) = Str d \<and>
      amount (normalizeRow fm pm now data) = Str a \<and>
      date (normalizeRow fm pm now data) = Str t)"
  by (simp add: normalizeRow_def row_get_def js_or_def)

theorem normalizeRow_verbatim_witness:
  "map_of [(''Transaction Date'', ''2023-01-15''), (''Description'', ''AMAZON.COM''), (''Amount'', ''-50.99'')]
     (description_column (BANK_MAPPINGS chase)) = Some ''AMAZON.COM'' \<and> ''AMAZON.COM'' \<noteq> [] \<and>
   map_of [(''Transaction Date'', ''2023-01-15''), (''Description'', ''AMAZON.COM''), (''Amount'', ''-50.99'')]
     (amount_column (BANK_MAPPINGS chase)) = Some ''-50.99'' \<and> ''-50.99'' \<noteq> [] \<and>
   map_of [(''Transaction Date'', ''2023-01-15''), (''Description'', ''AMAZON.COM''), (''Amount'', ''-50.99'')]
     (transactionDate_column (BANK_MAPPINGS chase)) = Some ''2023-01-15'' \<and> ''2023-01-15'' \<noteq> [] \<and>
   description (normalizeRow (BANK_MAPPINGS chase) ''Chase Freedom'' ''2024-02-03T10:20:30.123Z''
     (map_of [(''Transaction Date'', ''2023-01-15''), (''Description'', ''AMAZON.COM''), (''Amount'', ''-50.99'')]))
     = Str ''AMAZON.COM'' \<and>
   amount (normalizeRow (BANK_MAPPINGS chase) ''Chase Freedom'' ''2024-02-03T10:20:30.123Z''
     (map_of [(''Transaction Date'', ''2023-01-15''), (''Description'', ''AMAZON.COM''), (''Amount'', ''-50.99'')]))
     = Str ''-50.99'' \<and>
   date (normalizeRow (BANK_MAPPINGS chase) ''Chase Freedom'' ''2024-02-03T10:20:30.123Z''
     (map_of [(''Transaction Date'', ''2023-01-15''), (''Description'', ''AMAZON.COM''), (''Amount'', ''-50.99'')]))
     = Str ''2023-01-15''"
  using normalizeRow_verbatim [of "BANK_MAPPINGS chase" "''Chase Freedom''" "''2024-02-03T10:20:30.123Z''"
      "map_of [(''Transaction Date'', ''2023-01-15''), (''Description'', ''AMAZON.COM''), (''Amount'', ''-50.99'')]"
      "''AMAZON.COM''" "''-50.99''" "''2023-01-15''"]
  by simp

section \<open>The parse as a whole\<close>







text \<open>
  C7. A label that starts with none of the three prefixes makes \<^verbatim>\<open>parseCSV\<close> reject
  without any effect: the file is not opened, the events of the stream play no part in the
  result, and the message of the rejection holds
  \<^verbatim>\<open>Unsupported payment method: \<close> followed by the label as it was given.
\<close>

theorem parseCSV_unsupported_never_opens:
  "\<not> ci_starts ''chase'' pm \<and> \<not> ci_starts ''amex'' pm \<and> \<not> ci_starts ''apple'' pm \<longrightarrow>
     snd (parseCSV w filePath pm) = [] \<and>
     (\<exists>rest. fst (parseCSV w filePath pm) =
        Rejected (Error ((''Unsupported payment method: '' @ pm) @ rest))) \<and>
     parseCSV (w\<lparr>csv_events := evs\<rparr>) filePath pm = parseCSV w filePath pm"
  using resolveBank_cases [of pm] by (simp add: parseCSV_def)

theorem parseCSV_unsupported_never_opens_witness:
  "\<not> ci_starts ''chase'' ''Unsupported Card'' \<and> \<not> ci_starts ''amex'' ''Unsupported Card'' \<and>
   \<not> ci_starts ''apple'' ''Unsupported Card'' \<and>
   parseCSV example_world ''transactions.csv'' ''Unsupported Card'' =
     (Rejected (Error ''Unsupported payment method: Unsupported Card. Cannot determine bank type.''), [])"
proof -
  have h: "\<not> ci_starts ''chase'' ''Unsupported Card'' \<and> \<not> ci_starts ''amex'' ''Unsupported Card'' \<and>
    \<not> ci_starts ''apple'' ''Unsupported Card''" by code_simp
  have r: "resolveBank ''Unsupported Card'' =
      Inl (Error ''Unsupported payment method: Unsupported Card. Cannot determine bank type.'')"
    by code_simp
  show ?thesis
    using h parseCSV_unsupported_never_opens [of "''Unsupported Card''" example_world "''transactions.csv''"]
    by (simp add: parseCSV_def r)
qed

section \<open>Validation\<close>

lemma allowed_resolve:
  "resolveBank ''Amex Platinum'' = Inr amex"
  "resolveBank ''Apple Card'' = Inr apple"
  "resolveBank ''Chase Freedom'' = Inr chase"
  "resolveBank ''Chase Sapphire'' = Inr chase"
  "resolveBank ''Chase Southwest'' = Inr chase"
  by code_simp+

lemma allowed_ci:
  "ci_starts ''amex'' ''Amex Platinum''"
  "ci_starts ''apple'' ''Apple Card''"
  "ci_starts ''chase'' ''Chase Freedom''"
  "ci_starts ''chase'' ''Chase Sapphire''"
  "ci_starts ''chase'' ''Chase Southwest''"
  by code_simp+

lemma validate_Inr:
  "validate w ev opts = Inr v \<Longrightarrow>
   fs_access w (csvFilePath opts) \<and> opt_paymentMethod opts \<in> set ALLOWED_PAYMENT_METHODS \<and>
   js_or (whoAmI opts) (WHO_AM_I ev) \<in> set (map Str ALLOWED_USERS) \<and>
   truthy (js_or (notionApiKey opts) (NOTION_API_KEY ev)) \<and>
   truthy (js_or (notionDatabaseId opts) (NOTION_DATABASE_ID ev)) \<and>
   v = opts\<lparr>notionApiKey := js_or (notionApiKey opts) (NOTION_API_KEY ev),
           notionDatabaseId := js_or (notionDatabaseId opts) (NOTION_DATABASE_ID ev),
           whoAmI := js_or (whoAmI opts) (WHO_AM_I ev)\<rparr>"
  unfolding validate_def Let_def by (simp split: if_splits)

lemma allowed_resolves: "pm \<in> set ALLOWED_PAYMENT_METHODS \<Longrightarrow> \<exists>bank. resolveBank pm = Inr bank"
  unfolding ALLOWED_PAYMENT_METHODS_def using allowed_resolve by auto

text \<open>
  C10. Each of the five allowed payment methods starts, up to case, with one of the three
  bank prefixes; so when the validation passes, the bank resolution of the following
  \<^verbatim>\<open>parseCSV\<close> call succeeds: the call goes on to open the file, and the run performs
  that opening.
\<close>

theorem validated_method_resolves:
  "(\<forall>pm\<in>set ALLOWED_PAYMENT_METHODS.
      ci_starts ''chase'' pm \<or> ci_starts ''amex'' pm \<or> ci_starts ''apple'' pm) \<and>
   (validate w ev opts = Inr v \<longrightarrow>
      (\<exists>bank. resolveBank (opt_paymentMethod v) = Inr bank) \<and>
      snd (parseCSV w (csvFilePath v) (opt_paymentMethod v)) = [Open (csvFilePath v)] \<and>
      Open (csvFilePath opts) \<in> set (snd (validateAndUploadTransactions w ev opts)))"
proof (intro conjI impI)
  show "\<forall>pm\<in>set ALLOWED_PAYMENT_METHODS.
      ci_starts ''chase'' pm \<or> ci_starts ''amex'' pm \<or> ci_starts ''apple'' pm"
    unfolding ALLOWED_PAYMENT_METHODS_def using allowed_ci by simp
next
  assume ok: "validate w ev opts = Inr v"
  from validate_Inr [OF ok] have pm: "opt_paymentMethod v \<in> set ALLOWED_PAYMENT_METHODS"
    and path: "csvFilePath v = csvFilePath opts" by auto
  from allowed_resolves [OF pm] obtain bank where b: "resolveBank (opt_paymentMethod v) = Inr bank" ..
  then show "\<exists>bank. resolveBank (opt_paymentMethod v) = Inr bank" ..
  from b show p: "snd (parseCSV w (csvFilePath v) (opt_paymentMethod v)) = [Open (csvFilePath v)]"
    by (simp add: parseCSV_def)
  obtain pr where "parseCSV w (csvFilePath v) (opt_paymentMethod v) = (pr, [Open (csvFilePath opts)])"
    using p path by (cases "parseCSV w (csvFilePath v) (opt_paymentMethod v)") auto
  then show "Open (csvFilePath opts) \<in> set (snd (validateAndUploadTransactions w ev opts))"
    using ok by (cases pr) (auto simp: validateAndUploadTransactions_def)
qed

lemma example_validate:
  "validate example_world example_env example_options =
     Inr \<lparr>csvFilePath = ''transactions.csv'', opt_paymentMethod = ''Chase Freedom'',
          notionDatabaseId = Str ''db1'', notionApiKey = Str ''secret'', whoAmI = Str ''Alli'',
          dryRun = False\<rparr>"
  by (simp add: validate_def example_world_def example_env_def example_options_def js_or_def
      ALLOWED_USERS_def ALLOWED_PAYMENT_METHODS_def)

theorem validated_method_resolves_witness:
  "validate example_world example_env example_options =
     Inr \<lparr>csvFilePath = ''transactions.csv'', opt_paymentMethod = ''Chase Freedom'',
          notionDatabaseId = Str ''db1'', notionApiKey = Str ''secret'', whoAmI = Str ''Alli'',
          dryRun = False\<rparr> \<and>
   ''Chase Freedom'' \<in> set ALLOWED_PAYMENT_METHODS \<and> ci_starts ''chase'' ''Chase Freedom'' \<and>
   resolveBank ''Chase Freedom'' = Inr chase \<and>
   snd (parseCSV example_world ''transactions.csv'' ''Chase Freedom'') = [Open ''transactions.csv''] \<and>
   Open ''transactions.csv'' \<in>
     set (snd (validateAndUploadTransactions example_world example_env example_options))"
proof -
  have m: "''Chase Freedom'' \<in> set ALLOWED_PAYMENT_METHODS"
    by (simp add: ALLOWED_PAYMENT_METHODS_def)
  have o: "csvFilePath example_options = ''transactions.csv''"
    by (simp add: example_options_def)
  show ?thesis
    using m example_validate allowed_resolve(3) allowed_ci(3) o
      validated_method_resolves [of example_world example_env example_options
        "\<lparr>csvFilePath = ''transactions.csv'', opt_paymentMethod = ''Chase Freedom'',
          notionDatabaseId = Str ''db1'', notionApiKey = Str ''secret'', whoAmI = Str ''Alli'',
          dryRun = False\<rparr>"]
    by simp
qed

text \<open>
  C4. The checks are gates in a fixed order: an unreadable file, then a missing API key,
  then a missing database id, then a missing identity, then an identity that is neither
  \<^verbatim>\<open>Alli\<close> nor \<^verbatim>\<open>Justin\<close>, then a payment method outside the five allowed ones. The
  error thrown is that of the first check that fails, whatever the later checks would say,
  and the run then has done nothing but probe the file: nothing is opened and nothing is sent.
\<close>

theorem validation_fail_fast:
  "(\<not> fs_access w (csvFilePath opts) \<longrightarrow>
      validateAndUploadTransactions w ev opts =
        (Thrown (Error (''CSV file not found at path: '' @ csvFilePath opts)),
         [Access (csvFilePath opts)])) \<and>
   (fs_access w (csvFilePath opts) \<and>
    \<not> truthy (js_or (notionApiKey opts) (NOTION_API_KEY ev)) \<longrightarrow>
      validateAndUploadTransactions w ev opts =
        (Thrown (Error ''Notion API key is required. Provide it via --notion-api-key option or NOTION_API_KEY env var.''),
         [Access (csvFilePath opts)])) \<and>
   (fs_access w (csvFilePath opts) \<and>
    truthy (js_or (notionApiKey opts) (NOTION_API_KEY ev)) \<and>
    \<not> truthy (js_or (notionDatabaseId opts) (NOTION_DATABASE_ID ev)) \<longrightarrow>
      validateAndUploadTransactions w ev opts =
        (Thrown (Error ''Notion database ID is required. Provide it via --notion-database-id option or NOTION_DATABASE_ID env var.''),
         [Access (csvFilePath opts)])) \<and>
   (fs_access w (csvFilePath opts) \<and>
    truthy (js_or (notionApiKey opts) (NOTION_API_KEY ev)) \<and>
    truthy (js_or (notionDatabaseId opts) (NOTION_DATABASE_ID ev)) \<and>
    \<not> truthy (js_or (whoAmI opts) (WHO_AM_I ev)) \<longrightarrow>
      validateAndUploadTransactions w ev opts =
        (Thrown (Error ''WHO_AM_I is required. Provide it via --who-am-i option or WHO_AM_I env var.''),
         [Access (csvFilePath opts)])) \<and>
   (fs_access w (csvFilePath opts) \<and>
    truthy (js_or (notionApiKey opts) (NOTION_API_KEY ev)) \<and>
    truthy (js_or (notionDatabaseId opts) (NOTION_DATABASE_ID ev)) \<and>
    truthy (js_or (whoAmI opts) (WHO_AM_I ev)) \<and>
    js_or (whoAmI opts) (WHO_AM_I ev) \<noteq> Str ''Alli'' \<and>
    js_or (whoAmI opts) (WHO_AM_I ev) \<noteq> Str ''Justin'' \<longrightarrow>
      validateAndUploadTransactions w ev opts =
        (Thrown (Error ''--who-am-i must be one of: Alli, Justin''),
         [Access (csvFilePath opts)])) \<and>
   (fs_access w (csvFilePath opts) \<and>
    truthy (js_or (notionApiKey opts) (NOTION_API_KEY ev)) \<and>
    truthy (js_or (notionDatabaseId opts) (NOTION_DATABASE_ID ev)) \<and>
    (js_or (whoAmI opts) (WHO_AM_I ev) = Str ''Alli'' \<or>
     js_or (whoAmI opts) (WHO_AM_I ev) = Str ''Justin'') \<and>
    opt_paymentMethod opts \<notin>
      {''Amex Platinum'', ''Apple Card'', ''Chase Freedom'', ''Chase Sapphire'', ''Chase Southwest''} \<longrightarrow>
      validateAndUploadTransactions w ev opts =
        (Thrown (Error ''--payment-method must be one of: Amex Platinum, Apple Card, Chase Freedom, Chase Sapphire, Chase Southwest''),
         [Access (csvFilePath opts)]))"
  unfolding validateAndUploadTransactions_def validate_def Let_def ALLOWED_USERS_def
    ALLOWED_PAYMENT_METHODS_def
  by (intro conjI impI) (auto simp: image_iff)

theorem validation_fail_fast_witness:
  "\<not> fs_access example_world (csvFilePath bad_options) \<and>
   validateAndUploadTransactions example_world empty_env bad_options =
     (Thrown (Error ''CSV file not found at path: missing.csv''), [Access ''missing.csv'']) \<and>
   validateAndUploadTransactions example_world empty_env
       (bad_options\<lparr>csvFilePath := ''transactions.csv''\<rparr>) =
     (Thrown (Error ''Notion API key is required. Provide it via --notion-api-key option or NOTION_API_KEY env var.''),
      [Access ''transactions.csv'']) \<and>
   validateAndUploadTransactions example_world empty_env
       (bad_options\<lparr>csvFilePath := ''transactions.csv'', notionApiKey := Str ''secret''\<rparr>) =
     (Thrown (Error ''Notion database ID is required. Provide it via --notion-database-id option or NOTION_DATABASE_ID env var.''),
      [Access ''transactions.csv'']) \<and>
   validateAndUploadTransactions example_world empty_env
       (bad_options\<lparr>csvFilePath := ''transactions.csv'', notionApiKey := Str ''secret'',
          notionDatabaseId := Str ''db1''\<rparr>) =
     (Thrown (Error ''WHO_AM_I is required. Provide it via --who-am-i option or WHO_AM_I env var.''),
      [Access ''transactions.csv'']) \<and>
   validateAndUploadTransactions example_world empty_env
       (bad_options\<lparr>csvFilePath := ''transactions.csv'', notionApiKey := Str ''secret'',
          notionDatabaseId := Str ''db1'', whoAmI := Str ''Bob''\<rparr>) =
     (Thrown (Error ''--who-am-i must be one of: Alli, Justin''), [Access ''transactions.csv'']) \<and>
   validateAndUploadTransactions example_world empty_env
       (bad_options\<lparr>csvFilePath := ''transactions.csv'', notionApiKey := Str ''secret'',
          notionDatabaseId := Str ''db1'', whoAmI := Str ''Justin''\<rparr>) =
     (Thrown (Error ''--payment-method must be one of: Amex Platinum, Apple Card, Chase Freedom, Chase Sapphire, Chase Southwest''),
      [Access ''transactions.csv''])"
proof -
  have f: "\<not> fs_access example_world ''missing.csv''" "fs_access example_world ''transactions.csv''"
    by (simp_all add: example_world_def)
  show ?thesis
    using f
      validation_fail_fast [of example_world bad_options empty_env]
      validation_fail_fast [of example_world "bad_options\<lparr>csvFilePath := ''transactions.csv''\<rparr>" empty_env]
      validation_fail_fast [of example_world
        "bad_options\<lparr>csvFilePath := ''transactions.csv'', notionApiKey := Str ''secret''\<rparr>" empty_env]
      validation_fail_fast [of example_world
        "bad_options\<lparr>csvFilePath := ''transactions.csv'', notionApiKey := Str ''secret'',
          notionDatabaseId := Str ''db1''\<rparr>" empty_env]
      validation_fail_fast [of example_world
        "bad_options\<lparr>csvFilePath := ''transactions.csv'', notionApiKey := Str ''secret'',
          notionDatabaseId := Str ''db1'', whoAmI := Str ''Bob''\<rparr>" empty_env]
      validation_fail_fast [of example_world
        "bad_options\<lparr>csvFilePath := ''transactions.csv'', notionApiKey := Str ''secret'',
          notionDatabaseId := Str ''db1'', whoAmI := Str ''Justin''\<rparr>" empty_env]
    by (simp add: bad_options_def empty_env_def js_or_def)
qed

section \<open>The upload\<close>

lemmas parseFloat_defs = parseFloat_def parseUnsigned_def isWhiteSpace_def isDigit_def
  startsWith_def digitsVal_def scale10_def exponentPart_def






lemma created_pages_append: "created_pages (xs @ ys) = created_pages xs @ created_pages ys"
  by (induction xs rule: created_pages.induct) simp_all

lemma formatDateToISO_no_create: "created_pages (snd (formatDateToISO w d)) = []"
  by (simp add: formatDateToISO_def split: option.split)

lemma created_pages_item:
  "created_pages (upload_item w db who k t) = [buildPage w db who k t]"
  by (simp add: upload_item_def created_pages_append formatDateToISO_no_create
      split: option.split error.split)

lemma created_pages_upload_from:
  "created_pages (upload_from w db who n ts) =
     map (\<lambda>k. buildPage w db who (n + k) (ts ! k)) [0..<length ts]"
proof (induction ts arbitrary: n)
  case Nil
  show ?case by simp
next
  case (Cons t ts)
  show ?case
    by (simp add: created_pages_append created_pages_item Cons.IH map_upt_Suc del: upt_Suc)
qed

lemma upload_from_item:
  "k < length ts \<Longrightarrow>
   set (upload_item w db who (n + k) (ts ! k)) \<subseteq> set (upload_from w db who n ts)"
proof (induction ts arbitrary: n k)
  case Nil
  then show ?case by simp
next
  case (Cons t ts)
  show ?case
  proof (cases k)
    case 0
    then show ?thesis by simp
  next
    case (Suc j)
    with Cons.prems have "j < length ts" by simp
    from Cons.IH [OF this, of "Suc n"] Suc show ?thesis by auto
  qed
qed

lemma item_reports_failure:
  "pages_create w k (buildPage w db who k t) = Some (Error m) \<Longrightarrow>
   ConsoleError (''Failed to upload transaction: '' @ m) \<in> set (upload_item w db who k t)"
  by (simp add: upload_item_def)

text \<open>
  C6. Whatever the create calls answer, the loop hands one page per transaction to the
  create call, in the order of the transactions; and when the call for record \<open>k\<close> raises,
  the failure is reported on the error console and every later record is still attempted.
\<close>

theorem upload_attempts_every_record:
  "created_pages (uploadToNotion w db ts who) =
     map (\<lambda>k. buildPage w db who k (ts ! k)) [0..<length ts] \<and>
   (k < length ts \<and> pages_create w k (buildPage w db who k (ts ! k)) = Some (Error m) \<longrightarrow>
      ConsoleError (''Failed to upload transaction: '' @ m) \<in> set (uploadToNotion w db ts who) \<and>
      (\<forall>j. k < j \<and> j < length ts \<longrightarrow>
         Create (buildPage w db who j (ts ! j)) \<in> set (uploadToNotion w db ts who)))"
proof (intro conjI impI allI)
  show "created_pages (uploadToNotion w db ts who) =
     map (\<lambda>k. buildPage w db who k (ts ! k)) [0..<length ts]"
    using created_pages_upload_from [of w db who 0 ts] by (simp add: uploadToNotion_def)
next
  assume h: "k < length ts \<and> pages_create w k (buildPage w db who k (ts ! k)) = Some (Error m)"
  then show "ConsoleError (''Failed to upload transaction: '' @ m) \<in> set (uploadToNotion w db ts who)"
    using upload_from_item [of k ts w db who 0] item_reports_failure [of w k db who "ts ! k" m]
    by (auto simp: uploadToNotion_def)
next
  fix j assume "k < j \<and> j < length ts"
  then have "j < length ts" by simp
  from upload_from_item [OF this, of w db who 0]
  show "Create (buildPage w db who j (ts ! j)) \<in> set (uploadToNotion w db ts who)"
    by (auto simp: uploadToNotion_def upload_item_def)
qed


theorem upload_attempts_every_record_witness:
  "1 < length [amazon_tx, starbucks_tx, blank_tx] \<and>
   pages_create example_world 1
     (buildPage example_world (Str ''db1'') (Str ''Alli'') 1 ([amazon_tx, starbucks_tx, blank_tx] ! 1)) =
     Some (Error ''validation_error'') \<and>
   ConsoleError ''Failed to upload transaction: validation_error'' \<in>
     set (uploadToNotion example_world (Str ''db1'') [amazon_tx, starbucks_tx, blank_tx] (Str ''Alli'')) \<and>
   Create (buildPage example_world (Str ''db1'') (Str ''Alli'') 2 blank_tx) \<in>
     set (uploadToNotion example_world (Str ''db1'') [amazon_tx, starbucks_tx, blank_tx] (Str ''Alli'')) \<and>
   map Expense_content
     (created_pages
        (uploadToNotion example_world (Str ''db1'') [amazon_tx, starbucks_tx, blank_tx] (Str ''Alli''))) =
     [Str ''AMAZON.COM'', Str ''STARBUCKS'', Str ''Unknown Transaction'']"
proof -
  let ?ts = "[amazon_tx, starbucks_tx, blank_tx]"
  let ?u = "uploadToNotion example_world (Str ''db1'') ?ts (Str ''Alli'')"
  have l: "1 < length ?ts" by simp
  have f: "pages_create example_world 1
      (buildPage example_world (Str ''db1'') (Str ''Alli'') 1 (?ts ! 1)) =
      Some (Error ''validation_error'')"
    by (simp add: example_world_def)
  note t = upload_attempts_every_record [of example_world "Str ''db1''" ?ts "Str ''Alli''" 1
      "''validation_error''"]
  from t l f have e: "ConsoleError ''Failed to upload transaction: validation_error'' \<in> set ?u"
    by simp
  from t l f have "\<forall>j. 1 < j \<and> j < length ?ts \<longrightarrow>
      Create (buildPage example_world (Str ''db1'') (Str ''Alli'') j (?ts ! j)) \<in> set ?u"
    by blast
  then have "1 < (2::nat) \<and> 2 < length ?ts \<longrightarrow>
      Create (buildPage example_world (Str ''db1'') (Str ''Alli'') 2 (?ts ! 2)) \<in> set ?u"
    by (rule spec)
  then have c: "Create (buildPage example_world (Str ''db1'') (Str ''Alli'') 2 blank_tx) \<in> set ?u"
    by simp
  from t have "created_pages ?u =
      map (\<lambda>k. buildPage example_world (Str ''db1'') (Str ''Alli'') k (?ts ! k)) [0..<length ?ts]"
    by (rule conjunct1)
  then have "map Expense_content (created_pages ?u) =
      map (\<lambda>k. Expense_content (buildPage example_world (Str ''db1'') (Str ''Alli'') k (?ts ! k)))
        [0..<length ?ts]"
    by (simp add: comp_def)
  also have "\<dots> = [Str ''AMAZON.COM'', Str ''STARBUCKS'', Str ''Unknown Transaction'']"
    by (simp add: upt_rec buildPage_def js_or_def amazon_tx_def starbucks_tx_def blank_tx_def)
  finally have m: "map Expense_content (created_pages ?u) =
      [Str ''AMAZON.COM'', Str ''STARBUCKS'', Str ''Unknown Transaction'']" .
  from l f e c m show ?thesis by blast
qed








section \<open>A complete run\<close>

text \<open>
  The whole program on the concrete world: the file is probed and opened, the three rows
  become three records, the unparseable date of the second is replaced with a warning, the
  refusal of the second record is reported, and the third record is still sent.
\<close>

lemma example_run:
  "validateAndUploadTransactions example_world example_env example_options =
     (Returned,
      [Access ''transactions.csv'', Open ''transactions.csv'',
       Create \<lparr>database_id = Str ''db1'', Date_start = Str ''2023-01-15'',
               Expense_content = Str ''AMAZON.COM'', Total_Amount = Finite (5099 / 100),
               Status_name = ''Requires Audit'', Payment_Method_name = ''Alli's Chase Freedom''\<rparr>,
       Warn (''Date parsing error for '' @ [CHR 0x22] @ ''soon'' @ [CHR 0x22] @ '': Invalid date: soon''),
       Create \<lparr>database_id = Str ''db1'', Date_start = Str ''2024-02-03'',
               Expense_content = Str ''STARBUCKS'', Total_Amount = Finite (99 / 20),
               Status_name = ''Requires Audit'', Payment_Method_name = ''Alli's Chase Freedom''\<rparr>,
       ConsoleError ''Failed to upload transaction: validation_error'',
       Create \<lparr>database_id = Str ''db1'', Date_start = Str ''2024-02-03'',
               Expense_content = Str ''Unknown'', Total_Amount = Finite 0,
               Status_name = ''Requires Audit'', Payment_Method_name = ''Alli's Chase Freedom''\<rparr>])"
proof -
  have o: "csvFilePath example_options = ''transactions.csv''"
    by (simp add: example_options_def)
  show ?thesis
    unfolding validateAndUploadTransactions_def example_validate o
    by (simp add: parseCSV_def allowed_resolve
     example_world_def normalizeRow_def row_get_def js_or_def nowISO_def split_T_0_def
     uploadToNotion_def upload_item_def buildPage_def formatDateToISO_def amountNumber_def parseFloat_defs)
qed

end
